theory Spec2Isabelle
  imports Complex_Main "HOL-Library.Sublist"
begin

section \<open>The mission simulation engine (hook \<open>useSimulation\<close>)\<close>

text \<open>
  The engine is the React hook \<open>useSimulation\<close>: four pieces of state (orders, aircraft,
  mission, activeMissionOrderId), seven commands and a periodic tick. Every command and
  the tick callback run to completion on the current state, so each is a function from
  the state to the new state; a command is taken to be issued from a render that has
  seen the effect of the one before it, so the values its closure holds are the current
  ones. None of them throws or returns an error value: a failed precondition is an early
  \<open>return\<close> that leaves the state as it was.

  JavaScript numbers are modelled as \<open>real\<close>: the rounding of IEEE doubles to 53 bits and
  the sign of zero are not part of the model. The payload weight is assigned directly
  from \<open>parseFloat\<close>, can hold \<open>NaN\<close> or an infinity, and is a \<open>jsnumber\<close>. The distance,
  the eta and the coordinates of the route are \<open>NaN\<close> when a mission is started from a
  looked-up value that has no \<open>lat\<close> and \<open>lng\<close>; they are of type \<open>real option\<close>, with \<open>None\<close>
  for \<open>NaN\<close>. Strings are lists of code units below 256. \<open>Math.random()\<close> is an input of
  the tick.
\<close>

subsection \<open>Data\<close>

datatype jsnumber = NaN | Inf bool | Fin real

type_synonym numberOrNaN = "real option"

text \<open>
  The \<open>Order\<close> type is imported from the orders panel; its fields and the four status
  literals are the ones this hook reads and writes.
\<close>

datatype orderStatus = Pending | Approved | InFlight | Delivered

record order =
  order_id :: string
  packageType :: string
  weight :: string
  pickup :: string
  delivery :: string
  order_status :: orderStatus

datatype aircraftStatus = Idle | AcInFlight | Landing | Charging

datatype aircraftMode = Manual | SemiAuto | Auto

text \<open>
  \<open>aircraft_speed\<close> is the property \<open>speed\<close> that \<open>startMission\<close> and the completing tick
  write into the aircraft object; the initial object does not have it (\<open>None\<close>).
\<close>

record aircraftState =
  battery :: real
  payloadWeight :: jsnumber
  maxPayload :: real
  aircraft_status :: aircraftStatus
  mode :: aircraftMode
  signal :: real
  satellites :: real
  cameraActive :: bool
  aircraft_speed :: "real option"

record missionState =
  progress :: real
  elapsed :: real
  eta :: numberOrNaN
  distance :: numberOrNaN
  altitude :: real
  speed :: real
  routeProgress :: real
  route :: "(numberOrNaN \<times> numberOrNaN) list"

record coord =
  lat :: real
  lng :: real

record engine =
  orders :: "order list"
  aircraft :: aircraftState
  mission :: missionState
  activeMissionOrderId :: "string option"

definition initialAircraft :: aircraftState where
  "initialAircraft =
     \<lparr> battery = 87, payloadWeight = Fin 0, maxPayload = 5, aircraft_status = Idle,
       mode = SemiAuto, signal = 98, satellites = 12, cameraActive = True,
       aircraft_speed = None \<rparr>"

definition initialMission :: missionState where
  "initialMission =
     \<lparr> progress = 0, elapsed = 0, eta = Some 0, distance = Some 0, altitude = 150, speed = 0,
       routeProgress = 0, route = [] \<rparr>"

definition locationTable :: "(string \<times> coord) list" where
  "locationTable =
     [ (''Warehouse A'', \<lparr> lat = 130827 / 10000, lng = 802707 / 10000 \<rparr>),
       (''Hospital B'', \<lparr> lat = 130604 / 10000, lng = 802496 / 10000 \<rparr>),
       (''Depot C'', \<lparr> lat = 130878 / 10000, lng = 802785 / 10000 \<rparr>),
       (''Office Park D'', \<lparr> lat = 130569 / 10000, lng = 802425 / 10000 \<rparr>),
       (''Kitchen Hub'', \<lparr> lat = 130475 / 10000, lng = 802090 / 10000 \<rparr>),
       (''Residential Zone E'', \<lparr> lat = 131067 / 10000, lng = 802206 / 10000 \<rparr>),
       (''HQ Tower'', \<lparr> lat = 130843 / 10000, lng = 802705 / 10000 \<rparr>),
       (''Branch Office F'', \<lparr> lat = 130108 / 10000, lng = 802270 / 10000 \<rparr>),
       (''Lab Center G'', \<lparr> lat = 130127 / 10000, lng = 802351 / 10000 \<rparr>),
       (''Research Facility H'', \<lparr> lat = 130674 / 10000, lng = 802376 / 10000 \<rparr>),
       (''Factory I'', \<lparr> lat = 131143 / 10000, lng = 801548 / 10000 \<rparr>),
       (''Maintenance Bay J'', \<lparr> lat = 130358 / 10000, lng = 801790 / 10000 \<rparr>) ]"

text \<open>
  The table is an object literal, so \<open>locationCoordinates[name]\<close> finds the entries of
  the table and also the members the object inherits from \<open>Object.prototype\<close>. An
  inherited member is a function, or for \<open>__proto__\<close> the prototype object: a truthy value
  with no \<open>lat\<close> and no \<open>lng\<close>. For every other name the result is \<open>undefined\<close> (\<open>None\<close>).
\<close>

datatype location = Coordinate coord | Inherited

definition objectPrototypeNames :: "string list" where
  "objectPrototypeNames =
     [ ''constructor'', ''hasOwnProperty'', ''isPrototypeOf'', ''propertyIsEnumerable'',
       ''toLocaleString'', ''toString'', ''valueOf'', ''__proto__'', ''__defineGetter__'',
       ''__defineSetter__'', ''__lookupGetter__'', ''__lookupSetter__'' ]"

definition locationCoordinates :: "string \<Rightarrow> location option" where
  "locationCoordinates name =
     (case map_of locationTable name of
        Some c \<Rightarrow> Some (Coordinate c)
      | None \<Rightarrow> if name \<in> set objectPrototypeNames then Some Inherited else None)"

definition mkOrder :: "string \<Rightarrow> string \<Rightarrow> string \<Rightarrow> string \<Rightarrow> string \<Rightarrow> order" where
  "mkOrder i p w pk dl =
     \<lparr> order_id = i, packageType = p, weight = w, pickup = pk, delivery = dl,
       order_status = Pending \<rparr>"

definition initialOrders :: "order list" where
  "initialOrders =
     [ mkOrder ''ORD-4821'' ''Medical Supplies'' ''2.4 kg'' ''Warehouse A'' ''Hospital B'',
       mkOrder ''ORD-4822'' ''Electronics'' ''1.8 kg'' ''Depot C'' ''Office Park D'',
       mkOrder ''ORD-4823'' ''Food Package'' ''3.1 kg'' ''Kitchen Hub'' ''Residential Zone E'',
       mkOrder ''ORD-4824'' ''Documents'' ''0.5 kg'' ''HQ Tower'' ''Branch Office F'',
       mkOrder ''ORD-4825'' ''Lab Samples'' ''1.2 kg'' ''Lab Center G'' ''Research Facility H'',
       mkOrder ''ORD-4826'' ''Spare Parts'' ''4.0 kg'' ''Factory I'' ''Maintenance Bay J'' ]"

definition initialEngine :: engine where
  "initialEngine =
     \<lparr> orders = initialOrders, aircraft = initialAircraft, mission = initialMission,
       activeMissionOrderId = None \<rparr>"

subsection \<open>Built-ins of the language\<close>

text \<open>
  \<open>if (activeMissionOrderId)\<close> on a \<open>string | null\<close>: \<open>null\<close> and the empty string are
  falsy. Every place of the hook that asks whether a mission is active uses this test.
\<close>

definition truthy :: "string option \<Rightarrow> bool" where
  "truthy v = (case v of None \<Rightarrow> False | Some x \<Rightarrow> x \<noteq> [])"

text \<open>\<open>Math.round\<close>: the nearest integer, halves towards plus infinity.\<close>

definition mathRound :: "real \<Rightarrow> real" where
  "mathRound x = of_int \<lfloor>x + 1 / 2\<rfloor>"

text \<open>\<open>Math.atan2(y, x)\<close> on finite arguments.\<close>

definition atan2 :: "real \<Rightarrow> real \<Rightarrow> real" where
  "atan2 y x =
     (if 0 < x then arctan (y / x)
      else if x < 0 then (if 0 \<le> y then arctan (y / x) + pi else arctan (y / x) - pi)
      else if 0 < y then pi / 2
      else if y < 0 then - (pi / 2)
      else 0)"

text \<open>
  \<open>parseFloat\<close>: leading white space is skipped, then the longest prefix that is a
  decimal literal (sign, \<open>Infinity\<close> or digits with an optional fraction and exponent) is
  read; \<open>NaN\<close> when there is none. The white space and line terminators below 256 are
  the code units 9 to 13, the space and the no-break space.
\<close>

definition isWhiteSpace :: "char \<Rightarrow> bool" where
  "isWhiteSpace c =
     (c \<in> set [CHR 0x09, CHR 0x0A, CHR 0x0B, CHR 0x0C, CHR 0x0D, CHR 0x20, CHR 0xA0])"

definition isDigit :: "char \<Rightarrow> bool" where
  "isDigit c = (c \<in> set ''0123456789'')"

definition digitsValue :: "string \<Rightarrow> nat" where
  "digitsValue ds = foldl (\<lambda>n c. 10 * n + (of_char c - 48)) 0 ds"

definition exponentPart :: "string \<Rightarrow> int" where
  "exponentPart s =
     (case s of
        [] \<Rightarrow> 0
      | e # r \<Rightarrow>
          if e = CHR ''e'' \<or> e = CHR ''E'' then
            (case r of
               [] \<Rightarrow> 0
             | sg # d \<Rightarrow>
                 if sg = CHR ''+'' then
                   (if takeWhile isDigit d = [] then 0 else int (digitsValue (takeWhile isDigit d)))
                 else if sg = CHR ''-'' then
                   (if takeWhile isDigit d = [] then 0 else - int (digitsValue (takeWhile isDigit d)))
                 else
                   (if takeWhile isDigit r = [] then 0 else int (digitsValue (takeWhile isDigit r))))
          else 0)"

definition pow10 :: "int \<Rightarrow> real" where
  "pow10 k = (if 0 \<le> k then 10 ^ nat k else 1 / 10 ^ nat (- k))"

text \<open>
  The value of a literal as a double, from its sign and its exact magnitude: a magnitude
  of at least \<open>2^1024 - 2^970\<close>, half way between the largest double and \<open>2^1024\<close>, rounds
  to an infinity, and one of at most \<open>2^-1075\<close>, half the smallest double above zero,
  rounds to zero. Between the two the exact value stands for the double nearest to it.
\<close>

definition toDouble :: "bool \<Rightarrow> real \<Rightarrow> jsnumber" where
  "toDouble neg m =
     (if 2 ^ 1024 - 2 ^ 970 \<le> m then Inf neg
      else if m \<le> 1 / 2 ^ 1075 then Fin 0
      else Fin (if neg then - m else m))"

definition unsignedLiteral :: "bool \<Rightarrow> string \<Rightarrow> jsnumber" where
  "unsignedLiteral neg u =
     (if take 8 u = ''Infinity'' then Inf neg
      else
        let ip = takeWhile isDigit u;
            r1 = dropWhile isDigit u;
            hasDot = (r1 \<noteq> [] \<and> hd r1 = CHR ''.'');
            fp = (if hasDot then takeWhile isDigit (tl r1) else []);
            r2 = (if hasDot then dropWhile isDigit (tl r1) else r1)
        in if ip = [] \<and> fp = [] then NaN
           else
             let mant = real (digitsValue ip) + real (digitsValue fp) / 10 ^ length fp
             in toDouble neg (mant * pow10 (exponentPart r2)))"

definition parseFloat :: "string \<Rightarrow> jsnumber" where
  "parseFloat s =
     (let t = dropWhile isWhiteSpace s
      in case t of
           [] \<Rightarrow> NaN
         | c # r \<Rightarrow>
             if c = CHR ''-'' then unsignedLiteral True r
             else if c = CHR ''+'' then unsignedLiteral False r
             else unsignedLiteral False t)"

text \<open>\<open>x || d\<close> on a number: \<open>NaN\<close> and zero are falsy.\<close>

definition orDefault :: "jsnumber \<Rightarrow> real \<Rightarrow> jsnumber" where
  "orDefault x d =
     (case x of NaN \<Rightarrow> Fin d | Inf b \<Rightarrow> Inf b | Fin v \<Rightarrow> if v = 0 then Fin d else Fin v)"

subsection \<open>Route and distance\<close>

text \<open>The \<open>for\<close> loop of \<open>generateAerialRoute\<close>, with its counter and the array built so far.\<close>

function routeLoop :: "coord \<Rightarrow> coord \<Rightarrow> nat \<Rightarrow> nat \<Rightarrow> (real \<times> real) list \<Rightarrow> (real \<times> real) list" where
  "routeLoop from to numPoints i points =
     (if i \<le> numPoints then
        let t = real i / real numPoints;
            lng' = lng from + (lng to - lng from) * t;
            lat' = lat from + (lat to - lat from) * t
        in routeLoop from to numPoints (i + 1) (points @ [(lng', lat')])
      else points)"
  by pat_completeness auto
termination
  by (relation "measure (\<lambda>(from, to, numPoints, i, points). Suc numPoints - i)") auto

declare routeLoop.simps [simp del]

definition generateAerialRoute :: "coord \<Rightarrow> coord \<Rightarrow> nat \<Rightarrow> (real \<times> real) list" where
  "generateAerialRoute from to numPoints = routeLoop from to numPoints 0 []"

definition haversineDistance :: "coord \<Rightarrow> coord \<Rightarrow> real" where
  "haversineDistance from to =
     (let R = 6371;
          dLat = ((lat to - lat from) * pi) / 180;
          dLng = ((lng to - lng from) * pi) / 180;
          a = (sin (dLat / 2))\<^sup>2
              + cos ((lat from * pi) / 180) * cos ((lat to * pi) / 180) * (sin (dLng / 2))\<^sup>2
      in R * 2 * atan2 (sqrt a) (sqrt (1 - a)))"

text \<open>
  The two functions on the values \<open>startMission\<close> passes them. A looked-up value that is
  not an entry of the table has no \<open>lat\<close> and no \<open>lng\<close>: the reads give \<open>undefined\<close>, every
  sum, difference and product with it is \<open>NaN\<close>, and so is every function of one. The
  loop of \<open>generateAerialRoute\<close> still pushes its 51 points.
\<close>

definition generateAerialRouteOf ::
    "location \<Rightarrow> location \<Rightarrow> (numberOrNaN \<times> numberOrNaN) list" where
  "generateAerialRouteOf from to =
     (case from of
        Coordinate P \<Rightarrow>
          (case to of
             Coordinate D \<Rightarrow> map (\<lambda>(x, y). (Some x, Some y)) (generateAerialRoute P D 50)
           | Inherited \<Rightarrow> replicate 51 (None, None))
      | Inherited \<Rightarrow> replicate 51 (None, None))"

definition haversineDistanceOf :: "location \<Rightarrow> location \<Rightarrow> numberOrNaN" where
  "haversineDistanceOf from to =
     (case from of
        Coordinate P \<Rightarrow>
          (case to of
             Coordinate D \<Rightarrow> Some (haversineDistance P D)
           | Inherited \<Rightarrow> None)
      | Inherited \<Rightarrow> None)"

subsection \<open>Commands\<close>

text \<open>
  \<open>prev.map((o) => (o.id === target ? { ...o, status: st } : o))\<close>. The target is an order
  id, or \<open>activeMissionOrderId\<close>, which can be \<open>null\<close> and then equals no id.
\<close>

definition setStatus :: "string option \<Rightarrow> orderStatus \<Rightarrow> order list \<Rightarrow> order list" where
  "setStatus target st prev =
     map (\<lambda>x. if Some (order_id x) = target then x\<lparr>order_status := st\<rparr> else x) prev"

definition approveOrder :: "string \<Rightarrow> engine \<Rightarrow> engine" where
  "approveOrder orderId s = s\<lparr>orders := setStatus (Some orderId) Approved (orders s)\<rparr>"

definition rejectOrder :: "string \<Rightarrow> engine \<Rightarrow> engine" where
  "rejectOrder orderId s = s\<lparr>orders := filter (\<lambda>x. order_id x \<noteq> orderId) (orders s)\<rparr>"

definition addOrder :: "order \<Rightarrow> engine \<Rightarrow> engine" where
  "addOrder ord s = s\<lparr>orders := orders s @ [ord]\<rparr>"

definition droneSpeed :: real where
  "droneSpeed = 42"

text \<open>The state \<open>startMission\<close> writes once its four checks have passed.\<close>

definition launch :: "string \<Rightarrow> order \<Rightarrow> location \<Rightarrow> location \<Rightarrow> engine \<Rightarrow> engine" where
  "launch orderId ord pickupCoord deliveryCoord s =
     (let coordinates = generateAerialRouteOf pickupCoord deliveryCoord;
          dist = haversineDistanceOf pickupCoord deliveryCoord;
          totalEta = map_option (\<lambda>d. mathRound ((d / droneSpeed) * 3600)) dist;
          w = orDefault (parseFloat (weight ord)) 2
      in s\<lparr> activeMissionOrderId := Some orderId,
             orders := setStatus (Some orderId) InFlight (orders s),
             aircraft := (aircraft s)\<lparr> aircraft_status := AcInFlight, payloadWeight := w,
                                        aircraft_speed := Some droneSpeed \<rparr>,
             mission := \<lparr> progress = 0, elapsed = 0, eta = totalEta, distance = dist,
                          altitude = 150, speed = droneSpeed, routeProgress = 0,
                          route = coordinates \<rparr> \<rparr>)"

definition startMission :: "string \<Rightarrow> engine \<Rightarrow> engine" where
  "startMission orderId s =
     (case find (\<lambda>x. order_id x = orderId) (orders s) of
        None \<Rightarrow> s
      | Some ord \<Rightarrow>
          if order_status ord \<noteq> Approved then s
          else if truthy (activeMissionOrderId s) then s
          else
            (case locationCoordinates (pickup ord) of
               None \<Rightarrow> s
             | Some pickupCoord \<Rightarrow>
                 (case locationCoordinates (delivery ord) of
                    None \<Rightarrow> s
                  | Some deliveryCoord \<Rightarrow> launch orderId ord pickupCoord deliveryCoord s)))"

definition emergencyStop :: "engine \<Rightarrow> engine" where
  "emergencyStop s =
     (if \<not> truthy (activeMissionOrderId s) then s
      else s\<lparr> orders := setStatus (activeMissionOrderId s) Pending (orders s),
             aircraft := (aircraft s)\<lparr> aircraft_status := Idle, payloadWeight := Fin 0 \<rparr>,
             mission := initialMission,
             activeMissionOrderId := None \<rparr>)"

definition returnHome :: "engine \<Rightarrow> engine" where
  "returnHome s =
     (if \<not> truthy (activeMissionOrderId s) then s
      else s\<lparr> mission := (mission s)\<lparr> progress := 95 \<rparr> \<rparr>)"

definition toggleCamera :: "engine \<Rightarrow> engine" where
  "toggleCamera s = s\<lparr> aircraft := (aircraft s)\<lparr> cameraActive := \<not> cameraActive (aircraft s) \<rparr> \<rparr>"

subsection \<open>The tick\<close>

text \<open>
  The interval callback draws three values from \<open>Math.random()\<close>: one for the speed, one
  for the signal, one for the satellite count. The timer fires every 600 ms and exists
  only while \<open>activeMissionOrderId\<close> is truthy.
\<close>

record rnd =
  rSpeed :: real
  rSignal :: real
  rSatellites :: real

definition tickIntervalMs :: real where
  "tickIntervalMs = 600"

definition batteryDrain :: "rnd \<Rightarrow> aircraftState \<Rightarrow> aircraftState" where
  "batteryDrain r prev =
     prev\<lparr> battery := max 0 (battery prev - 8 / 100),
           signal := min 100 (max 85 (signal prev + (rSignal r - 1 / 2) * 2)),
           satellites := max 8 (min 14 (satellites prev + mathRound ((rSatellites r - 1 / 2) * 1))) \<rparr>"

definition tickMission :: "rnd \<Rightarrow> engine \<Rightarrow> engine" where
  "tickMission r s =
     (let prev = mission s;
          newProgress = min (progress prev + 3 / 2) 100;
          newRouteProgress = newProgress / 100;
          newElapsed = elapsed prev + 1;
          remainingFraction = 1 - newRouteProgress;
          totalTime = map_option (\<lambda>d. d / (speed prev / 3600)) (distance prev);
          newEta = map_option (\<lambda>t. max 0 (t * remainingFraction)) totalTime;
          altitudeVariation = 150 + sin (newElapsed * (3 / 10)) * 8;
          speedVariation = 40 + rSpeed r * 6
      in if 100 \<le> newProgress then
           s\<lparr> orders := setStatus (activeMissionOrderId s) Delivered (orders s),
              aircraft := (aircraft s)\<lparr> aircraft_status := Idle, payloadWeight := Fin 0,
                                         aircraft_speed := Some 0 \<rparr>,
              activeMissionOrderId := None,
              mission := prev\<lparr> progress := 100, routeProgress := 1, eta := Some 0, speed := 0 \<rparr> \<rparr>
         else
           s\<lparr> mission := prev\<lparr> progress := newProgress, routeProgress := newRouteProgress,
                                elapsed := newElapsed, eta := newEta,
                                altitude := mathRound altitudeVariation,
                                speed := mathRound speedVariation \<rparr> \<rparr>)"

definition tick :: "rnd \<Rightarrow> engine \<Rightarrow> engine" where
  "tick r s =
     (if \<not> truthy (activeMissionOrderId s) then s
      else let s1 = tickMission r s in s1\<lparr> aircraft := batteryDrain r (aircraft s1) \<rparr>)"

subsection \<open>Reachable states\<close>

datatype command =
    ApproveOrder string
  | RejectOrder string
  | AddOrder order
  | StartMission string
  | EmergencyStop
  | ReturnHome
  | ToggleCamera
  | Tick rnd

fun exec :: "command \<Rightarrow> engine \<Rightarrow> engine" where
  "exec (ApproveOrder i) s = approveOrder i s"
| "exec (RejectOrder i) s = rejectOrder i s"
| "exec (AddOrder ord) s = addOrder ord s"
| "exec (StartMission i) s = startMission i s"
| "exec EmergencyStop s = emergencyStop s"
| "exec ReturnHome s = returnHome s"
| "exec ToggleCamera s = toggleCamera s"
| "exec (Tick r) s = tick r s"

text \<open>\<open>Math.random()\<close> returns a value in \<open>[0, 1)\<close>.\<close>

definition validRandom :: "real \<Rightarrow> bool" where
  "validRandom x = (0 \<le> x \<and> x < 1)"

fun validCommand :: "command \<Rightarrow> bool" where
  "validCommand (Tick r) = (validRandom (rSpeed r) \<and> validRandom (rSignal r) \<and> validRandom (rSatellites r))"
| "validCommand c = True"

inductive reachable :: "engine \<Rightarrow> bool" where
  init: "reachable initialEngine"
| step: "reachable s \<Longrightarrow> validCommand c \<Longrightarrow> reachable (exec c s)"

fun run :: "command list \<Rightarrow> engine \<Rightarrow> engine" where
  "run [] s = s"
| "run (c # cs) s = run cs (exec c s)"

subsection \<open>Example states\<close>

text \<open>
  The seed order \<open>ORD-4821\<close> (Warehouse A to Hospital B) after \<open>approveOrder\<close>, and after
  \<open>startMission\<close>.
\<close>

definition warehouseA :: coord where
  "warehouseA = \<lparr> lat = 130827 / 10000, lng = 802707 / 10000 \<rparr>"

definition hospitalB :: coord where
  "hospitalB = \<lparr> lat = 130604 / 10000, lng = 802496 / 10000 \<rparr>"

definition order4821 :: order where
  "order4821 =
     (mkOrder ''ORD-4821'' ''Medical Supplies'' ''2.4 kg'' ''Warehouse A'' ''Hospital B'')
       \<lparr> order_status := Approved \<rparr>"

definition approved4821 :: engine where
  "approved4821 = approveOrder ''ORD-4821'' initialEngine"

definition flying4821 :: engine where
  "flying4821 = startMission ''ORD-4821'' approved4821"

text \<open>
  A draw of \<open>Math.random()\<close> that returns 0 three times; the mission of \<open>ORD-4821\<close>
  after \<open>returnHome\<close> and three ticks; and an order whose weight string is \<open>0 kg\<close>, added
  with \<open>addOrder\<close> and approved.
\<close>

definition r0 :: rnd where
  "r0 = \<lparr> rSpeed = 0, rSignal = 0, rSatellites = 0 \<rparr>"

definition landing4821 :: engine where
  "landing4821 = run [ReturnHome, Tick r0, Tick r0, Tick r0] flying4821"

definition order9000 :: order where
  "order9000 = mkOrder ''ORD-9000'' ''Empty Crate'' ''0 kg'' ''Warehouse A'' ''Hospital B''"

definition approved9000 :: engine where
  "approved9000 = approveOrder ''ORD-9000'' (addOrder order9000 initialEngine)"











section \<open>Properties\<close>

subsection \<open>Auxiliary facts\<close>

lemmas parseFloat_defs =
  parseFloat_def unsignedLiteral_def toDouble_def isWhiteSpace_def isDigit_def
  digitsValue_def exponentPart_def pow10_def

lemma parseFloat_samples:
  "parseFloat ''2.4 kg'' = Fin (12 / 5)"
  "parseFloat ''0 kg'' = Fin 0"
  "parseFloat ''kg'' = NaN"
  "parseFloat ''1e400'' = Inf False"
  "parseFloat ''1e-400'' = Fin 0"
  "parseFloat [CHR 0xA0, CHR ''3'', CHR '' '', CHR ''k'', CHR ''g''] = Fin 3"
  by (simp_all add: parseFloat_defs Let_def)

lemma routeLoop_map:
  "routeLoop from to n i pts =
     pts @ map (\<lambda>k. (lng from + (lng to - lng from) * (real k / real n),
                      lat from + (lat to - lat from) * (real k / real n))) [i..<Suc n]"
proof (induction "from" to n i pts rule: routeLoop.induct)
  case (1 "from" to numPoints i points)
  show ?case
  proof (cases "i \<le> numPoints")
    case True
    then have "[i..<Suc numPoints] = i # [Suc i..<Suc numPoints]"
      by (simp add: upt_conv_Cons)
    with True 1 show ?thesis
      by (subst routeLoop.simps) (simp add: Let_def)
  next
    case False
    then show ?thesis by (subst routeLoop.simps) simp
  qed
qed

lemma generateAerialRoute_map:
  "generateAerialRoute from to n =
     map (\<lambda>k. (lng from + (lng to - lng from) * (real k / real n),
                lat from + (lat to - lat from) * (real k / real n))) [0..<Suc n]"
  by (simp add: generateAerialRoute_def routeLoop_map)

lemma startMission_launch:
  assumes "find (\<lambda>x. order_id x = orderId) (orders s) = Some ord"
    and "order_status ord = Approved"
    and "\<not> truthy (activeMissionOrderId s)"
    and "locationCoordinates (pickup ord) = Some P"
    and "locationCoordinates (delivery ord) = Some D"
  shows "startMission orderId s = launch orderId ord P D s"
  using assms by (simp add: startMission_def)

lemma approved4821_find:
  "find (\<lambda>x. order_id x = ''ORD-4821'') (orders approved4821) = Some order4821"
  by (simp add: approved4821_def approveOrder_def setStatus_def initialEngine_def
      initialOrders_def mkOrder_def order4821_def)

lemma approved4821_inactive: "activeMissionOrderId approved4821 = None"
  by (simp add: approved4821_def approveOrder_def initialEngine_def)

lemma locationCoordinates_A: "locationCoordinates ''Warehouse A'' = Some (Coordinate warehouseA)"
  by (simp add: locationCoordinates_def locationTable_def warehouseA_def)

lemma locationCoordinates_B: "locationCoordinates ''Hospital B'' = Some (Coordinate hospitalB)"
  by (simp add: locationCoordinates_def locationTable_def hospitalB_def)

lemma flying4821_launch:
  "flying4821 =
     launch ''ORD-4821'' order4821 (Coordinate warehouseA) (Coordinate hospitalB) approved4821"
  unfolding flying4821_def
  by (rule startMission_launch[OF approved4821_find])
     (simp_all add: order4821_def mkOrder_def approved4821_inactive truthy_def
        locationCoordinates_A locationCoordinates_B)

lemma flying4821_active: "activeMissionOrderId flying4821 = Some ''ORD-4821''"
  by (simp add: flying4821_launch launch_def Let_def)

lemma tick_flying:
  assumes "truthy (activeMissionOrderId s)" and "progress (mission s) + 3 / 2 < 100"
  shows "tick r s =
    s\<lparr> mission := (mission s)\<lparr>
          progress := progress (mission s) + 3 / 2,
          routeProgress := (progress (mission s) + 3 / 2) / 100,
          elapsed := elapsed (mission s) + 1,
          eta := map_option (\<lambda>d. max 0 (d / (speed (mission s) / 3600)
                                           * (1 - (progress (mission s) + 3 / 2) / 100)))
                   (distance (mission s)),
          altitude := mathRound (150 + sin ((elapsed (mission s) + 1) * (3 / 10)) * 8),
          speed := mathRound (40 + rSpeed r * 6) \<rparr>,
       aircraft := batteryDrain r (aircraft s) \<rparr>"
  using assms by (simp add: tick_def tickMission_def Let_def min_def option.map_comp comp_def)

lemma tick_completing:
  assumes "truthy (activeMissionOrderId s)" and "100 \<le> progress (mission s) + 3 / 2"
  shows "tick r s =
    s\<lparr> orders := setStatus (activeMissionOrderId s) Delivered (orders s),
       aircraft := batteryDrain r ((aircraft s)\<lparr> aircraft_status := Idle,
                     payloadWeight := Fin 0, aircraft_speed := Some 0 \<rparr>),
       activeMissionOrderId := None,
       mission := (mission s)\<lparr> progress := 100, routeProgress := 1, eta := Some 0,
                                 speed := 0 \<rparr> \<rparr>"
  using assms by (simp add: tick_def tickMission_def Let_def min_def)

lemma tick_inactive: "\<not> truthy (activeMissionOrderId s) \<Longrightarrow> tick r s = s"
  by (simp add: tick_def)

lemma setStatus_ids: "map order_id (setStatus i st os) = map order_id os"
  by (induction os) (simp_all add: setStatus_def)

lemma setStatus_absent: "i \<notin> order_id ` set os \<Longrightarrow> setStatus (Some i) st os = os"
  by (induction os) (auto simp: setStatus_def)

lemma startMission_cases:
  "startMission i s = s \<or> (\<exists>ord P D. startMission i s = launch i ord P D s)"
  by (auto simp: startMission_def split: option.splits)

lemma tick_orders:
  "orders (tick r s) = orders s
   \<or> orders (tick r s) = setStatus (activeMissionOrderId s) Delivered (orders s)"
  by (simp add: tick_def tickMission_def Let_def)

lemma exec_order_ids:
  "(\<forall>i. c \<noteq> RejectOrder i) \<Longrightarrow>
     prefix (map order_id (orders s)) (map order_id (orders (exec c s)))"
proof (cases c)
  case (StartMission i)
  then show ?thesis
    using startMission_cases[of i s] by (auto simp: launch_def Let_def setStatus_ids)
next
  case (Tick r)
  then show ?thesis
    using tick_orders[of r s] by (auto simp: setStatus_ids)
qed (auto simp: approveOrder_def addOrder_def emergencyStop_def returnHome_def
      toggleCamera_def setStatus_ids)

lemma mathRound_speed_bounds:
  assumes "0 \<le> x" and "x < 1"
  shows "40 \<le> mathRound (40 + x * 6) \<and> mathRound (40 + x * 6) \<le> 46"
proof -
  have "(40::int) \<le> \<lfloor>40 + x * 6 + 1 / 2\<rfloor>"
    using assms by (simp add: le_floor_iff)
  moreover have "\<lfloor>40 + x * 6 + 1 / 2\<rfloor> \<le> (46::int)"
    using assms by (simp add: floor_le_iff)
  ultimately show ?thesis
    unfolding mathRound_def
    by (metis of_int_le_iff of_int_numeral)
qed

lemma launch_fields:
  "progress (mission (launch i ord P D s)) = 0"
  "speed (mission (launch i ord P D s)) = droneSpeed"
  "routeProgress (mission (launch i ord P D s)) = 0"
  "elapsed (mission (launch i ord P D s)) = 0"
  "distance (mission (launch i ord P D s)) = haversineDistanceOf P D"
  "activeMissionOrderId (launch i ord P D s) = Some i"
  by (simp_all add: launch_def Let_def)

lemma exec_invariant:
  assumes "0 \<le> progress (mission s) \<and> progress (mission s) \<le> 100
      \<and> (truthy (activeMissionOrderId s) \<longrightarrow> 40 \<le> speed (mission s) \<and> speed (mission s) \<le> 46)"
    and "validCommand c"
  shows "0 \<le> progress (mission (exec c s)) \<and> progress (mission (exec c s)) \<le> 100
      \<and> (truthy (activeMissionOrderId (exec c s)) \<longrightarrow>
            40 \<le> speed (mission (exec c s)) \<and> speed (mission (exec c s)) \<le> 46)"
proof (cases c)
  case (StartMission i)
  then show ?thesis
    using assms startMission_cases[of i s] by (auto simp: launch_fields droneSpeed_def)
next
  case (Tick r)
  show ?thesis
  proof (cases "truthy (activeMissionOrderId s)")
    case False
    then show ?thesis using assms Tick by (simp add: tick_inactive)
  next
    case True
    show ?thesis
    proof (cases "progress (mission s) + 3 / 2 < 100")
      case fly: True
      have "validRandom (rSpeed r)" using assms(2) Tick by simp
      then have "40 \<le> mathRound (40 + rSpeed r * 6) \<and> mathRound (40 + rSpeed r * 6) \<le> 46"
        by (simp add: validRandom_def mathRound_speed_bounds)
      then show ?thesis
        using assms(1) fly Tick by (simp add: tick_flying[OF True fly])
    next
      case False
      then have c: "100 \<le> progress (mission s) + 3 / 2" by simp
      show ?thesis
        using Tick by (simp add: tick_completing[OF True c] truthy_def)
    qed
  qed
qed (use assms in \<open>auto simp: approveOrder_def rejectOrder_def addOrder_def emergencyStop_def
      returnHome_def toggleCamera_def initialMission_def truthy_def\<close>)

lemma reachable_invariant:
  "reachable s \<Longrightarrow>
     0 \<le> progress (mission s) \<and> progress (mission s) \<le> 100
     \<and> (truthy (activeMissionOrderId s) \<longrightarrow> 40 \<le> speed (mission s) \<and> speed (mission s) \<le> 46)"
proof (induction rule: reachable.induct)
  case init
  show ?case by (simp add: initialEngine_def initialMission_def truthy_def)
next
  case (step s c)
  then show ?case using exec_invariant[of s c] by blast
qed

lemma reachable_run:
  "reachable s \<Longrightarrow> list_all validCommand cs \<Longrightarrow> reachable (run cs s)"
  by (induction cs arbitrary: s) (auto intro: reachable.step)

lemma atan2_pos: "0 < y \<Longrightarrow> 0 \<le> x \<Longrightarrow> 0 < atan2 y x"
  by (auto simp: atan2_def zero_less_arctan_iff)

lemma sin_small_sq:
  fixes u :: real
  assumes "\<bar>u\<bar> \<le> 1 / 2"
  shows "(sin u)\<^sup>2 \<le> 1 / 4"
proof -
  have "\<bar>sin u\<bar> \<le> \<bar>u\<bar>" by (rule abs_sin_x_le_abs_x)
  then have "\<bar>sin u\<bar> \<le> \<bar>1 / 2 :: real\<bar>" using assms by simp
  then have "(sin u)\<^sup>2 \<le> (1 / 2)\<^sup>2" by (simp only: abs_le_square_iff)
  then show ?thesis by (simp add: power2_eq_square)
qed

lemma haversine_A_B_pos: "0 < haversineDistance warehouseA hospitalB"
proof -
  define u where "u = (((lat hospitalB - lat warehouseA) * pi) / 180) / 2"
  define v where "v = (((lng hospitalB - lng warehouseA) * pi) / 180) / 2"
  define k where "k = cos ((lat warehouseA * pi) / 180) * cos ((lat hospitalB * pi) / 180)"
  define a where "a = (sin u)\<^sup>2 + k * (sin v)\<^sup>2"
  have d: "haversineDistance warehouseA hospitalB = 6371 * 2 * atan2 (sqrt a) (sqrt (1 - a))"
    by (simp add: haversineDistance_def Let_def a_def u_def v_def k_def)
  have p: "0 < pi" "pi < 4" using pi_gt_zero pi_less_4 by simp_all
  have x: "u = - (223 * pi / 3600000)"
    by (simp add: u_def warehouseA_def hospitalB_def)
  have y: "v = - (211 * pi / 3600000)"
    by (simp add: v_def warehouseA_def hospitalB_def)
  have "0 < sin (223 * pi / 3600000)"
    by (rule sin_gt_zero) (use p in simp_all)
  then have s1: "0 < (sin u)\<^sup>2"
    unfolding x by simp
  have c1: "0 < cos ((lat warehouseA * pi) / 180)"
    by (rule cos_gt_zero_pi) (use p in \<open>simp_all add: warehouseA_def\<close>)
  have c2: "0 < cos ((lat hospitalB * pi) / 180)"
    by (rule cos_gt_zero_pi) (use p in \<open>simp_all add: hospitalB_def\<close>)
  have k0: "0 \<le> k" using c1 c2 by (simp add: k_def)
  have k1: "k \<le> 1" unfolding k_def by (rule mult_le_one) (use c2 in simp_all)
  have "0 \<le> k * (sin v)\<^sup>2" using k0 by simp
  with s1 have a0: "0 < a" unfolding a_def by linarith
  have su: "(sin u)\<^sup>2 \<le> 1 / 4"
    by (rule sin_small_sq) (use p in \<open>simp add: x\<close>)
  have sv: "(sin v)\<^sup>2 \<le> 1 / 4"
    by (rule sin_small_sq) (use p in \<open>simp add: y\<close>)
  have "k * (sin v)\<^sup>2 \<le> 1 * (sin v)\<^sup>2"
    by (rule mult_right_mono) (use k1 in simp_all)
  with su sv have a1: "a \<le> 1" unfolding a_def by linarith
  have "0 < atan2 (sqrt a) (sqrt (1 - a))"
    by (rule atan2_pos) (use a0 a1 in simp_all)
  then show ?thesis unfolding d by simp
qed

lemma orDefault_alt:
  "orDefault x d = (if x = NaN \<or> x = Fin 0 then Fin d else x)"
  by (cases x) (simp_all add: orDefault_def)

lemma three_ticks_after_returnHome:
  assumes "truthy (activeMissionOrderId s)"
  shows "progress (mission (tick r3 (tick r2 (tick r1 (returnHome s))))) = 199 / 2
    \<and> elapsed (mission (tick r3 (tick r2 (tick r1 (returnHome s))))) = elapsed (mission s) + 3
    \<and> orders (tick r3 (tick r2 (tick r1 (returnHome s)))) = orders s
    \<and> activeMissionOrderId (tick r3 (tick r2 (tick r1 (returnHome s)))) = activeMissionOrderId s
    \<and> progress (mission (tick r1 (returnHome s))) = 193 / 2
    \<and> orders (tick r1 (returnHome s)) = orders s
    \<and> activeMissionOrderId (tick r1 (returnHome s)) = activeMissionOrderId s"
proof -
  define s0 where "s0 = returnHome s"
  define s1 where "s1 = tick r1 s0"
  define s2 where "s2 = tick r2 s1"
  define s3 where "s3 = tick r3 s2"
  have h0: "s0 = s\<lparr> mission := (mission s)\<lparr> progress := 95 \<rparr> \<rparr>"
    using assms by (simp add: s0_def returnHome_def)
  have a0: "truthy (activeMissionOrderId s0)" "progress (mission s0) + 3 / 2 < 100"
    using assms by (simp_all add: h0)
  have h1: "progress (mission s1) = 193 / 2" "orders s1 = orders s"
    "activeMissionOrderId s1 = activeMissionOrderId s" "elapsed (mission s1) = elapsed (mission s) + 1"
    unfolding s1_def tick_flying[OF a0] by (simp_all add: h0)
  have a1: "truthy (activeMissionOrderId s1)" "progress (mission s1) + 3 / 2 < 100"
    using assms by (simp_all add: h1)
  have h2: "progress (mission s2) = 98" "orders s2 = orders s"
    "activeMissionOrderId s2 = activeMissionOrderId s" "elapsed (mission s2) = elapsed (mission s) + 2"
    unfolding s2_def tick_flying[OF a1] by (simp_all add: h1)
  have a2: "truthy (activeMissionOrderId s2)" "progress (mission s2) + 3 / 2 < 100"
    using assms by (simp_all add: h2)
  have h3: "progress (mission s3) = 199 / 2" "orders s3 = orders s"
    "activeMissionOrderId s3 = activeMissionOrderId s" "elapsed (mission s3) = elapsed (mission s) + 3"
    unfolding s3_def tick_flying[OF a2] by (simp_all add: h2)
  show ?thesis
    using h1 h3 unfolding s0_def s1_def s2_def s3_def by simp
qed

lemma flying4821_truthy: "truthy (activeMissionOrderId flying4821)"
  by (simp add: flying4821_active truthy_def)

lemma landing4821_eq:
  "landing4821 = tick r0 (tick r0 (tick r0 (returnHome flying4821)))"
  by (simp add: landing4821_def)

lemma landing4821_fields:
  "progress (mission landing4821) = 199 / 2"
  "elapsed (mission landing4821) = 3"
  "orders landing4821 = orders flying4821"
  "activeMissionOrderId landing4821 = Some ''ORD-4821''"
  using three_ticks_after_returnHome[OF flying4821_truthy, of r0 r0 r0]
  by (simp_all add: landing4821_eq flying4821_active flying4821_launch launch_fields)

lemma reachable_flying4821: "reachable flying4821"
proof -
  have "reachable (run [ApproveOrder ''ORD-4821'', StartMission ''ORD-4821''] initialEngine)"
    by (rule reachable_run[OF reachable.init]) simp
  then show ?thesis by (simp add: flying4821_def approved4821_def)
qed

lemma reachable_landing4821: "reachable landing4821"
  unfolding landing4821_def
  by (rule reachable_run[OF reachable_flying4821]) (simp add: r0_def validRandom_def)

lemma orders_flying4821:
  "orders flying4821 =
     [ order4821\<lparr> order_status := InFlight \<rparr>,
       mkOrder ''ORD-4822'' ''Electronics'' ''1.8 kg'' ''Depot C'' ''Office Park D'',
       mkOrder ''ORD-4823'' ''Food Package'' ''3.1 kg'' ''Kitchen Hub'' ''Residential Zone E'',
       mkOrder ''ORD-4824'' ''Documents'' ''0.5 kg'' ''HQ Tower'' ''Branch Office F'',
       mkOrder ''ORD-4825'' ''Lab Samples'' ''1.2 kg'' ''Lab Center G'' ''Research Facility H'',
       mkOrder ''ORD-4826'' ''Spare Parts'' ''4.0 kg'' ''Factory I'' ''Maintenance Bay J'' ]"
  by (simp add: flying4821_launch launch_def Let_def approved4821_def approveOrder_def
      setStatus_def initialEngine_def initialOrders_def mkOrder_def order4821_def)

lemma landing4821_truthy: "truthy (activeMissionOrderId landing4821)"
  by (simp add: landing4821_fields truthy_def)

lemma mathRound_40: "mathRound (40 + rSpeed r0 * 6) = 40"
  by (simp add: mathRound_def r0_def)

lemma flying4821_mission:
  "progress (mission flying4821) = 0"
  "elapsed (mission flying4821) = 0"
  "routeProgress (mission flying4821) = 0"
  "speed (mission flying4821) = droneSpeed"
  "distance (mission flying4821) = Some (haversineDistance warehouseA hospitalB)"
  by (simp_all add: flying4821_launch launch_fields haversineDistanceOf_def)

lemma routeProgress_preserved:
  assumes "c \<noteq> ReturnHome"
    and "routeProgress (mission s) = progress (mission s) / 100"
  shows "routeProgress (mission (exec c s)) = progress (mission (exec c s)) / 100"
proof (cases c)
  case (StartMission i)
  then show ?thesis
    using assms startMission_cases[of i s] by (auto simp: launch_fields)
next
  case (Tick r)
  then show ?thesis
    using assms by (simp add: tick_def tickMission_def Let_def)
qed (use assms in \<open>auto simp: approveOrder_def rejectOrder_def addOrder_def emergencyStop_def
      toggleCamera_def initialMission_def\<close>)

lemma tick_establishes_routeProgress:
  "truthy (activeMissionOrderId s) \<Longrightarrow>
     routeProgress (mission (tick r s)) = progress (mission (tick r s)) / 100"
  by (simp add: tick_def tickMission_def Let_def)

subsection \<open>Claims\<close>

text \<open>
  C1. The claim is that \<open>mission.routeProgress = mission.progress / 100\<close> holds in every
  reachable state. \<open>returnHome\<close> writes \<open>progress := 95\<close> and leaves \<open>routeProgress\<close> as
  it was, although \<open>startMission\<close> and both branches of the tick write the two fields
  together. Evaluated on the reachable state reached by approving and starting \<open>ORD-4821\<close>:
  after \<open>returnHome\<close> the progress is 95 and the route progress is still 0.
\<close>

theorem returnHome_routeProgress_stale:
  "reachable (returnHome flying4821)
   \<and> progress (mission (returnHome flying4821)) = 95
   \<and> routeProgress (mission (returnHome flying4821)) = 0
   \<and> routeProgress (mission (returnHome flying4821)) \<noteq> progress (mission (returnHome flying4821)) / 100"
proof -
  have "reachable (exec ReturnHome flying4821)"
    by (rule reachable.step[OF reachable_flying4821]) simp
  then show ?thesis
    using flying4821_truthy by (simp add: returnHome_def flying4821_mission)
qed





text \<open>
  C3, as amended. When the order found for \<open>orderId\<close> is \<open>Approved\<close>, no mission is active
  and both names resolve to coordinates \<open>P\<close> and \<open>D\<close> of the table, \<open>startMission\<close> sets
  \<open>activeMissionOrderId\<close> to \<open>orderId\<close>, sets the status of every order with that id to
  \<open>InFlight\<close>, sets the aircraft status to \<open>InFlight\<close> with speed 42 and payload
  \<open>parseFloat(weight) || 2.0\<close>, that is the parsed weight unless it is \<open>NaN\<close> or zero, in
  which two cases it is the default 2, and initialises the mission with progress 0,
  elapsed 0, eta the rounded \<open>distance / 42 * 3600\<close>, distance the haversine distance of
  \<open>P\<close> and \<open>D\<close>, altitude 150, speed 42, route progress 0 and the generated route of
  51 points.
\<close>

theorem startMission_success:
  assumes "find (\<lambda>x. order_id x = orderId) (orders s) = Some ord"
    and "order_status ord = Approved"
    and "\<not> truthy (activeMissionOrderId s)"
    and "locationCoordinates (pickup ord) = Some (Coordinate P)"
    and "locationCoordinates (delivery ord) = Some (Coordinate D)"
  shows "activeMissionOrderId (startMission orderId s) = Some orderId
    \<and> orders (startMission orderId s) =
        map (\<lambda>x. if order_id x = orderId then x\<lparr>order_status := InFlight\<rparr> else x) (orders s)
    \<and> aircraft (startMission orderId s) =
        (aircraft s)\<lparr> aircraft_status := AcInFlight,
                      payloadWeight := (if parseFloat (weight ord) = NaN \<or> parseFloat (weight ord) = Fin 0
                                        then Fin 2 else parseFloat (weight ord)),
                      aircraft_speed := Some 42 \<rparr>
    \<and> mission (startMission orderId s) =
        \<lparr> progress = 0, elapsed = 0,
          eta = Some (mathRound (haversineDistance P D / 42 * 3600)),
          distance = Some (haversineDistance P D), altitude = 150, speed = 42,
          routeProgress = 0,
          route = map (\<lambda>(x, y). (Some x, Some y)) (generateAerialRoute P D 50) \<rparr>"
  unfolding startMission_launch[OF assms]
  by (simp add: launch_def Let_def setStatus_def droneSpeed_def orDefault_alt
      generateAerialRouteOf_def haversineDistanceOf_def)

text \<open>The start of \<open>ORD-4821\<close>, whose weight string \<open>2.4 kg\<close> parses to 2.4.\<close>

theorem startMission_success_witness:
  "activeMissionOrderId flying4821 = Some ''ORD-4821''
   \<and> map order_status (orders flying4821) = [InFlight, Pending, Pending, Pending, Pending, Pending]
   \<and> aircraft_status (aircraft flying4821) = AcInFlight
   \<and> payloadWeight (aircraft flying4821) = Fin (12 / 5)
   \<and> aircraft_speed (aircraft flying4821) = Some 42
   \<and> progress (mission flying4821) = 0
   \<and> elapsed (mission flying4821) = 0
   \<and> altitude (mission flying4821) = 150
   \<and> distance (mission flying4821) = Some (haversineDistance warehouseA hospitalB)
   \<and> route (mission flying4821) =
        map (\<lambda>(x, y). (Some x, Some y)) (generateAerialRoute warehouseA hospitalB 50)"
proof -
  have t: "\<not> truthy (activeMissionOrderId approved4821)"
    by (simp add: approved4821_inactive truthy_def)
  have pk: "locationCoordinates (pickup order4821) = Some (Coordinate warehouseA)"
    by (simp add: order4821_def mkOrder_def locationCoordinates_A)
  have dl: "locationCoordinates (delivery order4821) = Some (Coordinate hospitalB)"
    by (simp add: order4821_def mkOrder_def locationCoordinates_B)
  have st: "order_status order4821 = Approved"
    by (simp add: order4821_def)
  have pf: "parseFloat (weight order4821) = Fin (12 / 5)"
    by (simp add: order4821_def mkOrder_def parseFloat_defs Let_def)
  note w = startMission_success[OF approved4821_find st t pk dl, folded flying4821_def]
  have os: "map order_status (orders flying4821) = [InFlight, Pending, Pending, Pending, Pending, Pending]"
    by (simp add: orders_flying4821 mkOrder_def)
  show ?thesis
    using w os by (simp add: pf)
qed

text \<open>
  The claim as first stated has the default used only for an unparsable weight. The
  weight string \<open>0 kg\<close> parses to the number 0, and the payload is the default 2.
\<close>

theorem startMission_zero_weight_counterexample:
  "parseFloat (weight order9000) = Fin 0
   \<and> payloadWeight (aircraft (startMission ''ORD-9000'' approved9000)) = Fin 2
   \<and> payloadWeight (aircraft (startMission ''ORD-9000'' approved9000)) \<noteq> parseFloat (weight order9000)"
proof -
  have pf: "parseFloat ''0 kg'' = Fin 0"
    by (simp add: parseFloat_defs Let_def)
  have f: "find (\<lambda>x. order_id x = ''ORD-9000'') (orders approved9000) =
      Some (order9000\<lparr> order_status := Approved \<rparr>)"
    by (simp add: approved9000_def approveOrder_def addOrder_def setStatus_def initialEngine_def
        initialOrders_def mkOrder_def order9000_def)
  have t: "\<not> truthy (activeMissionOrderId approved9000)"
    by (simp add: approved9000_def approveOrder_def addOrder_def initialEngine_def truthy_def)
  have "startMission ''ORD-9000'' approved9000 =
      launch ''ORD-9000'' (order9000\<lparr> order_status := Approved \<rparr>)
        (Coordinate warehouseA) (Coordinate hospitalB) approved9000"
    by (rule startMission_launch[OF f _ t])
       (simp_all add: order9000_def mkOrder_def locationCoordinates_A locationCoordinates_B)
  then show ?thesis
    by (simp add: launch_def Let_def order9000_def mkOrder_def pf orDefault_def)
qed


text \<open>
  C4. On every tick of a reachable state with an active mission, the progress does not
  decrease and is at most 100. The tick on which the progress becomes 100 (exactly when
  the old progress plus 1.5 reaches 100) also sets every order with the active id to
  \<open>Delivered\<close>, sets the aircraft to \<open>Idle\<close> with payload 0 and speed 0, clears
  \<open>activeMissionOrderId\<close>, and sets the route progress to 1, the eta to 0 and the mission
  speed to 0.
\<close>

theorem tick_progress_and_completion:
  assumes "reachable s" and "truthy (activeMissionOrderId s)"
  shows "progress (mission s) \<le> progress (mission (tick r s))
    \<and> progress (mission (tick r s)) \<le> 100
    \<and> (progress (mission (tick r s)) = 100 \<longleftrightarrow> 100 \<le> progress (mission s) + 3 / 2)
    \<and> (progress (mission (tick r s)) = 100 \<longrightarrow>
          orders (tick r s) =
            map (\<lambda>x. if Some (order_id x) = activeMissionOrderId s
                      then x\<lparr>order_status := Delivered\<rparr> else x) (orders s)
        \<and> aircraft_status (aircraft (tick r s)) = Idle
        \<and> payloadWeight (aircraft (tick r s)) = Fin 0
        \<and> aircraft_speed (aircraft (tick r s)) = Some 0
        \<and> activeMissionOrderId (tick r s) = None
        \<and> routeProgress (mission (tick r s)) = 1
        \<and> eta (mission (tick r s)) = Some 0
        \<and> speed (mission (tick r s)) = 0)"
proof (cases "progress (mission s) + 3 / 2 < 100")
  case True
  show ?thesis
    using True by (simp add: tick_flying[OF assms(2) True])
next
  case False
  then have c: "100 \<le> progress (mission s) + 3 / 2" by simp
  have "progress (mission s) \<le> 100"
    using reachable_invariant[OF assms(1)] by simp
  then show ?thesis
    using c by (simp add: tick_completing[OF assms(2) c] setStatus_def batteryDrain_def)
qed

text \<open>The first tick of the mission of \<open>ORD-4821\<close>, and the tick that completes it.\<close>

theorem tick_progress_and_completion_witness:
  "progress (mission flying4821) \<le> progress (mission (tick r0 flying4821))
   \<and> progress (mission (tick r0 flying4821)) \<le> 100
   \<and> progress (mission (tick r0 landing4821)) = 100
   \<and> map order_status (orders (tick r0 landing4821)) =
        [Delivered, Pending, Pending, Pending, Pending, Pending]
   \<and> aircraft_status (aircraft (tick r0 landing4821)) = Idle
   \<and> payloadWeight (aircraft (tick r0 landing4821)) = Fin 0
   \<and> aircraft_speed (aircraft (tick r0 landing4821)) = Some 0
   \<and> activeMissionOrderId (tick r0 landing4821) = None
   \<and> routeProgress (mission (tick r0 landing4821)) = 1
   \<and> eta (mission (tick r0 landing4821)) = Some 0
   \<and> speed (mission (tick r0 landing4821)) = 0"
proof -
  note a = tick_progress_and_completion[OF reachable_flying4821 flying4821_truthy, of r0]
  note b = tick_progress_and_completion[OF reachable_landing4821 landing4821_truthy, of r0]
  have c: "100 \<le> progress (mission landing4821) + 3 / 2"
    by (simp add: landing4821_fields)
  from b c have p: "progress (mission (tick r0 landing4821)) = 100" by blast
  from b p have o: "orders (tick r0 landing4821) =
      map (\<lambda>x. if Some (order_id x) = activeMissionOrderId landing4821
                then x\<lparr>order_status := Delivered\<rparr> else x) (orders landing4821)"
    by blast
  have os: "map order_status (orders (tick r0 landing4821)) =
        [Delivered, Pending, Pending, Pending, Pending, Pending]"
    unfolding o by (simp add: landing4821_fields orders_flying4821 mkOrder_def order4821_def)
  show ?thesis
    using a b p os by blast
qed


text \<open>
  C5, as amended. On every tick of a reachable state with an active mission the
  distance is unchanged and, the distance being a number, the new eta is
  \<open>max 0 (distance / (speed / 3600) * (1 - newRouteProgress))\<close>, where \<open>speed\<close> is the speed
  field of the mission as the tick finds it: between 40 and 46, the cruise speed 42 on
  the first tick after \<open>startMission\<close> and afterwards the rounded jittered speed the
  preceding tick stored. A tick that does not complete the mission adds 1 to \<open>elapsed\<close>
  and stores the rounded \<open>40 + random * 6\<close> as the new speed; when the distance is \<open>NaN\<close>
  the eta it computes is \<open>NaN\<close>.
\<close>

theorem tick_elapsed_eta:
  assumes "reachable s" and "truthy (activeMissionOrderId s)"
  shows "40 \<le> speed (mission s) \<and> speed (mission s) \<le> 46
    \<and> distance (mission (tick r s)) = distance (mission s)
    \<and> (\<forall>d. distance (mission s) = Some d \<longrightarrow>
          eta (mission (tick r s)) =
            Some (max 0 (d / (speed (mission s) / 3600)
                         * (1 - routeProgress (mission (tick r s))))))
    \<and> (progress (mission s) + 3 / 2 < 100 \<longrightarrow>
          elapsed (mission (tick r s)) = elapsed (mission s) + 1
        \<and> speed (mission (tick r s)) = mathRound (40 + rSpeed r * 6)
        \<and> (distance (mission s) = None \<longrightarrow> eta (mission (tick r s)) = None))"
proof (cases "progress (mission s) + 3 / 2 < 100")
  case True
  show ?thesis
    using True reachable_invariant[OF assms(1)] assms(2)
    by (simp add: tick_flying[OF assms(2) True])
next
  case False
  then have c: "100 \<le> progress (mission s) + 3 / 2" by simp
  show ?thesis
    using c reachable_invariant[OF assms(1)] assms(2)
    by (simp add: tick_completing[OF assms(2) c])
qed

text \<open>The first tick of the mission of \<open>ORD-4821\<close>, with the random draw 0.\<close>

theorem tick_elapsed_eta_witness:
  "speed (mission flying4821) = 42
   \<and> elapsed (mission (tick r0 flying4821)) = 1
   \<and> speed (mission (tick r0 flying4821)) = 40
   \<and> distance (mission (tick r0 flying4821)) = Some (haversineDistance warehouseA hospitalB)
   \<and> eta (mission (tick r0 flying4821)) =
       Some (max 0 (haversineDistance warehouseA hospitalB / (42 / 3600)
                    * (1 - routeProgress (mission (tick r0 flying4821)))))"
proof -
  note a = tick_elapsed_eta[OF reachable_flying4821 flying4821_truthy, of r0]
  have c: "progress (mission flying4821) + 3 / 2 < 100"
    by (simp add: flying4821_mission)
  from a c have e: "elapsed (mission (tick r0 flying4821)) = elapsed (mission flying4821) + 1
        \<and> speed (mission (tick r0 flying4821)) = mathRound (40 + rSpeed r0 * 6)"
    by blast
  from a have "eta (mission (tick r0 flying4821)) =
      Some (max 0 (haversineDistance warehouseA hospitalB / (speed (mission flying4821) / 3600)
                   * (1 - routeProgress (mission (tick r0 flying4821)))))"
    using flying4821_mission(5) by blast
  with a e show ?thesis
    by (simp add: flying4821_mission mathRound_40 droneSpeed_def)
qed

text \<open>
  The claim as first stated has the eta computed from the fixed cruise speed, and the
  tick period in seconds added to \<open>elapsed\<close> on every tick. With the random draw 0 the
  first tick of \<open>ORD-4821\<close> stores the speed 40, and the eta of the second tick is computed
  from 40, not from 42; a tick adds 1 to \<open>elapsed\<close> while the timer period is 0.6 seconds;
  and the completing tick leaves \<open>elapsed\<close> as it was.
\<close>

theorem tick_eta_jittered_speed_counterexample:
  "speed (mission flying4821) = droneSpeed
   \<and> speed (mission (tick r0 flying4821)) = 40
   \<and> distance (mission (tick r0 flying4821)) = distance (mission flying4821)
   \<and> distance (mission flying4821) = Some (haversineDistance warehouseA hospitalB)
   \<and> eta (mission (tick r0 (tick r0 flying4821))) \<noteq>
       Some (max 0 (haversineDistance warehouseA hospitalB / (droneSpeed / 3600)
                    * (1 - routeProgress (mission (tick r0 (tick r0 flying4821))))))
   \<and> elapsed (mission (tick r0 flying4821)) = elapsed (mission flying4821) + 1
   \<and> elapsed (mission (tick r0 flying4821)) \<noteq> elapsed (mission flying4821) + tickIntervalMs / 1000
   \<and> truthy (activeMissionOrderId landing4821)
   \<and> elapsed (mission (tick r0 landing4821)) = elapsed (mission landing4821)"
proof -
  define d where "d = haversineDistance warehouseA hospitalB"
  have d: "0 < d" unfolding d_def by (rule haversine_A_B_pos)
  have c: "progress (mission flying4821) + 3 / 2 < 100"
    by (simp add: flying4821_mission)
  note t1 = tick_flying[OF flying4821_truthy c, of r0]
  have a1: "truthy (activeMissionOrderId (tick r0 flying4821))"
    "progress (mission (tick r0 flying4821)) + 3 / 2 < 100"
    unfolding t1 using flying4821_truthy by (simp_all add: flying4821_mission)
  have f1: "speed (mission (tick r0 flying4821)) = 40"
    "distance (mission (tick r0 flying4821)) = Some d"
    "progress (mission (tick r0 flying4821)) = 3 / 2"
    "elapsed (mission (tick r0 flying4821)) = 1"
    unfolding t1 by (simp_all add: mathRound_40 flying4821_mission d_def)
  have e2: "eta (mission (tick r0 (tick r0 flying4821))) =
      Some (max 0 (d / (40 / 3600) * (1 - 3 / 100)))"
    "routeProgress (mission (tick r0 (tick r0 flying4821))) = 3 / 100"
    unfolding tick_flying[OF a1] by (simp_all add: f1)
  have ne: "max 0 (d / (40 / 3600) * (1 - 3 / 100)) \<noteq> max 0 (d / (droneSpeed / 3600) * (1 - 3 / 100))"
    using d by (simp add: droneSpeed_def max_def field_simps)
  have l: "100 \<le> progress (mission landing4821) + 3 / 2"
    by (simp add: landing4821_fields)
  have e3: "elapsed (mission (tick r0 landing4821)) = elapsed (mission landing4821)"
    unfolding tick_completing[OF landing4821_truthy l] by simp
  show ?thesis
    using ne e3 landing4821_truthy
    by (simp add: e2 f1 flying4821_mission d_def tickIntervalMs_def)
qed

text \<open>
  C6. When \<open>startMission\<close> starts a mission from pickup coordinate \<open>P\<close> to delivery
  coordinate \<open>D\<close>, the route has 51 points, the point at index 0 is \<open>P\<close>, the point at
  index 50 is \<open>D\<close>, and the point at every index \<open>i\<close> up to 50 is the linear interpolation
  of longitude and latitude at the fraction \<open>i / 50\<close>. Points are pairs (longitude,
  latitude), and \<open>P\<close> and \<open>D\<close> are the entries of the table for the two names.
\<close>

theorem startMission_route:
  assumes "find (\<lambda>x. order_id x = orderId) (orders s) = Some ord"
    and "order_status ord = Approved"
    and "\<not> truthy (activeMissionOrderId s)"
    and "locationCoordinates (pickup ord) = Some (Coordinate P)"
    and "locationCoordinates (delivery ord) = Some (Coordinate D)"
  shows "length (route (mission (startMission orderId s))) = 51
    \<and> route (mission (startMission orderId s)) ! 0 = (Some (lng P), Some (lat P))
    \<and> route (mission (startMission orderId s)) ! 50 = (Some (lng D), Some (lat D))
    \<and> (\<forall>i\<le>50. route (mission (startMission orderId s)) ! i =
          (Some (lng P + (lng D - lng P) * (real i / 50)),
           Some (lat P + (lat D - lat P) * (real i / 50))))"
proof -
  define pts where "pts = map (\<lambda>(x, y). (Some x, Some y)) (generateAerialRoute P D 50)"
  have r: "route (mission (startMission orderId s)) = pts"
    using assms by (simp add: startMission_launch launch_def Let_def generateAerialRouteOf_def
        pts_def)
  have n: "\<And>i. i \<le> 50 \<Longrightarrow> pts ! i =
      (Some (lng P + (lng D - lng P) * (real i / 50)),
       Some (lat P + (lat D - lat P) * (real i / 50)))"
  proof -
    fix i :: nat assume "i \<le> 50"
    then have "i < length [0..<Suc 50]" by simp
    then show "pts ! i =
      (Some (lng P + (lng D - lng P) * (real i / 50)),
       Some (lat P + (lat D - lat P) * (real i / 50)))"
      unfolding pts_def generateAerialRoute_map by (simp del: upt_Suc)
  qed
  have l: "length pts = 51"
    unfolding pts_def generateAerialRoute_map by simp
  have p0: "pts ! 0 = (Some (lng P), Some (lat P))"
    using n[of 0] by simp
  have p50: "pts ! 50 = (Some (lng D), Some (lat D))"
    using n[of 50] by (simp add: diff_divide_distrib)
  show ?thesis
    unfolding r using l p0 p50 n by blast
qed

text \<open>The route of \<open>ORD-4821\<close>: its two ends and its middle point.\<close>

theorem startMission_route_witness:
  "length (route (mission flying4821)) = 51
   \<and> route (mission flying4821) ! 0 = (Some (802707 / 10000), Some (130827 / 10000))
   \<and> route (mission flying4821) ! 50 = (Some (802496 / 10000), Some (130604 / 10000))
   \<and> route (mission flying4821) ! 25 = (Some (1605203 / 20000), Some (261431 / 20000))"
proof -
  have i: "(25::nat) \<le> 50" by simp
  have t: "\<not> truthy (activeMissionOrderId approved4821)"
    by (simp add: approved4821_inactive truthy_def)
  have pk: "locationCoordinates (pickup order4821) = Some (Coordinate warehouseA)"
    by (simp add: order4821_def mkOrder_def locationCoordinates_A)
  have dl: "locationCoordinates (delivery order4821) = Some (Coordinate hospitalB)"
    by (simp add: order4821_def mkOrder_def locationCoordinates_B)
  have st: "order_status order4821 = Approved"
    by (simp add: order4821_def)
  note w = startMission_route[OF approved4821_find st t pk dl]
  from w have "route (mission flying4821) ! 25 =
     (Some (lng warehouseA + (lng hospitalB - lng warehouseA) * (real 25 / 50)),
      Some (lat warehouseA + (lat hospitalB - lat warehouseA) * (real 25 / 50)))"
    using i unfolding flying4821_def by blast
  with w show ?thesis
    unfolding flying4821_def by (simp add: warehouseA_def hospitalB_def)
qed

text \<open>
  C7, as amended. \<open>emergencyStop\<close> returns the state unchanged when no mission is active.
  Otherwise it sets the status of every order with the active id to \<open>Pending\<close>, sets the
  aircraft status to \<open>Idle\<close> and the payload to 0 and leaves every other aircraft field
  as it was, sets the mission to \<open>initialMission\<close>, whose route is empty and whose
  numeric fields are 0 except the altitude, which is 150, and clears
  \<open>activeMissionOrderId\<close>.
\<close>

theorem emergencyStop_effect:
  "(\<not> truthy (activeMissionOrderId s) \<longrightarrow> emergencyStop s = s)
   \<and> (truthy (activeMissionOrderId s) \<longrightarrow>
        orders (emergencyStop s) =
          map (\<lambda>x. if Some (order_id x) = activeMissionOrderId s
                    then x\<lparr>order_status := Pending\<rparr> else x) (orders s)
      \<and> aircraft (emergencyStop s) =
          (aircraft s)\<lparr> aircraft_status := Idle, payloadWeight := Fin 0 \<rparr>
      \<and> battery (aircraft (emergencyStop s)) = battery (aircraft s)
      \<and> maxPayload (aircraft (emergencyStop s)) = maxPayload (aircraft s)
      \<and> mode (aircraft (emergencyStop s)) = mode (aircraft s)
      \<and> signal (aircraft (emergencyStop s)) = signal (aircraft s)
      \<and> satellites (aircraft (emergencyStop s)) = satellites (aircraft s)
      \<and> cameraActive (aircraft (emergencyStop s)) = cameraActive (aircraft s)
      \<and> aircraft_speed (aircraft (emergencyStop s)) = aircraft_speed (aircraft s)
      \<and> mission (emergencyStop s) =
          \<lparr> progress = 0, elapsed = 0, eta = Some 0, distance = Some 0, altitude = 150,
            speed = 0, routeProgress = 0, route = [] \<rparr>
      \<and> activeMissionOrderId (emergencyStop s) = None)"
  by (cases "activeMissionOrderId s")
     (auto simp: emergencyStop_def truthy_def setStatus_def initialMission_def)

text \<open>\<open>emergencyStop\<close> on the initial state, and in the flight of \<open>ORD-4821\<close>.\<close>

theorem emergencyStop_effect_witness:
  "emergencyStop initialEngine = initialEngine
   \<and> map order_status (orders (emergencyStop flying4821)) =
       [Pending, Pending, Pending, Pending, Pending, Pending]
   \<and> aircraft_status (aircraft (emergencyStop flying4821)) = Idle
   \<and> payloadWeight (aircraft (emergencyStop flying4821)) = Fin 0
   \<and> battery (aircraft (emergencyStop flying4821)) = 87
   \<and> route (mission (emergencyStop flying4821)) = []
   \<and> altitude (mission (emergencyStop flying4821)) = 150
   \<and> activeMissionOrderId (emergencyStop flying4821) = None"
proof -
  have a: "\<not> truthy (activeMissionOrderId initialEngine)"
    by (simp add: initialEngine_def truthy_def)
  have b: "truthy (activeMissionOrderId flying4821)"
    by (simp add: flying4821_active truthy_def)
  have o: "orders flying4821 = setStatus (Some ''ORD-4821'') InFlight (orders approved4821)"
    by (simp add: flying4821_launch launch_def Let_def)
  have ac: "aircraft approved4821 = initialAircraft"
    by (simp add: approved4821_def approveOrder_def initialEngine_def)
  have f: "aircraft flying4821 = initialAircraft\<lparr> aircraft_status := AcInFlight,
      payloadWeight := orDefault (parseFloat (weight order4821)) 2, aircraft_speed := Some droneSpeed \<rparr>"
    by (simp add: flying4821_launch launch_def Let_def ac)
  show ?thesis
    using emergencyStop_effect[of initialEngine] emergencyStop_effect[of flying4821] a b
    by (simp add: flying4821_active o f approved4821_def approveOrder_def setStatus_def
        initialEngine_def initialOrders_def mkOrder_def initialAircraft_def)
qed

text \<open>
  The claim as first stated has every field of the reset mission zeroed. The altitude
  after an emergency stop in the flight of \<open>ORD-4821\<close> is 150.
\<close>

theorem emergencyStop_altitude_counterexample:
  "truthy (activeMissionOrderId flying4821)
   \<and> altitude (mission (emergencyStop flying4821)) = 150
   \<and> altitude (mission (emergencyStop flying4821)) \<noteq> 0"
  by (simp add: flying4821_active truthy_def emergencyStop_def initialMission_def)


text \<open>
  C8. \<open>returnHome\<close> returns the state unchanged when no mission is active. Otherwise it
  sets the mission progress to 95 and changes nothing else: orders, aircraft and
  \<open>activeMissionOrderId\<close> are as before, so the mission is not completed by the call.
  The first tick after it moves the progress to 96.5 and still does not complete the
  mission; the fourth tick does, by the completing branch of the tick.
\<close>

theorem returnHome_effect:
  "(\<not> truthy (activeMissionOrderId s) \<longrightarrow> returnHome s = s)
   \<and> (truthy (activeMissionOrderId s) \<longrightarrow>
        returnHome s = s\<lparr> mission := (mission s)\<lparr> progress := 95 \<rparr> \<rparr>
      \<and> progress (mission (returnHome s)) = 95
      \<and> orders (returnHome s) = orders s
      \<and> aircraft (returnHome s) = aircraft s
      \<and> activeMissionOrderId (returnHome s) = activeMissionOrderId s
      \<and> progress (mission (tick r1 (returnHome s))) = 193 / 2
      \<and> orders (tick r1 (returnHome s)) = orders s
      \<and> activeMissionOrderId (tick r1 (returnHome s)) = activeMissionOrderId s
      \<and> activeMissionOrderId (tick r4 (tick r3 (tick r2 (tick r1 (returnHome s))))) = None
      \<and> orders (tick r4 (tick r3 (tick r2 (tick r1 (returnHome s))))) =
          map (\<lambda>x. if Some (order_id x) = activeMissionOrderId s
                    then x\<lparr>order_status := Delivered\<rparr> else x) (orders s))"
proof (cases "truthy (activeMissionOrderId s)")
  case False
  then show ?thesis by (simp add: returnHome_def)
next
  case True
  define s3 where "s3 = tick r3 (tick r2 (tick r1 (returnHome s)))"
  note h = three_ticks_after_returnHome[OF True, of r3 r2 r1]
  have h0: "returnHome s = s\<lparr> mission := (mission s)\<lparr> progress := 95 \<rparr> \<rparr>"
    using True by (simp add: returnHome_def)
  have a3: "truthy (activeMissionOrderId s3)" "100 \<le> progress (mission s3) + 3 / 2"
    using True h by (simp_all add: s3_def)
  have h4: "activeMissionOrderId (tick r4 s3) = None"
    "orders (tick r4 s3) = setStatus (activeMissionOrderId s) Delivered (orders s)"
    unfolding tick_completing[OF a3] using h by (simp_all add: s3_def)
  have h5: "progress (mission (returnHome s)) = 95" "orders (returnHome s) = orders s"
    "aircraft (returnHome s) = aircraft s"
    "activeMissionOrderId (returnHome s) = activeMissionOrderId s"
    unfolding h0 by simp_all
  show ?thesis
    using True h0 h5 h h4[unfolded s3_def] by (simp add: setStatus_def)
qed

text \<open>\<open>returnHome\<close> on the initial state, and in the flight of \<open>ORD-4821\<close>.\<close>

theorem returnHome_effect_witness:
  "returnHome initialEngine = initialEngine
   \<and> progress (mission (returnHome flying4821)) = 95
   \<and> activeMissionOrderId (returnHome flying4821) = Some ''ORD-4821''
   \<and> map order_status (orders (returnHome flying4821)) =
        [InFlight, Pending, Pending, Pending, Pending, Pending]
   \<and> activeMissionOrderId (tick r0 (returnHome flying4821)) = Some ''ORD-4821''
   \<and> activeMissionOrderId (tick r0 (tick r0 (tick r0 (tick r0 (returnHome flying4821))))) = None"
proof -
  have a: "\<not> truthy (activeMissionOrderId initialEngine)"
    by (simp add: initialEngine_def truthy_def)
  have b: "truthy (activeMissionOrderId flying4821)"
    by (simp add: flying4821_active truthy_def)
  have o: "orders flying4821 = setStatus (Some ''ORD-4821'') InFlight (orders approved4821)"
    by (simp add: flying4821_launch launch_def Let_def)
  have os: "map order_status (orders flying4821) =
        [InFlight, Pending, Pending, Pending, Pending, Pending]"
    by (simp add: o approved4821_def approveOrder_def setStatus_def
        initialEngine_def initialOrders_def mkOrder_def)
  have 1: "returnHome initialEngine = initialEngine"
    using returnHome_effect[of initialEngine] a by blast
  have 2: "progress (mission (returnHome flying4821)) = 95
      \<and> orders (returnHome flying4821) = orders flying4821
      \<and> activeMissionOrderId (returnHome flying4821) = activeMissionOrderId flying4821
      \<and> activeMissionOrderId (tick r0 (returnHome flying4821)) = activeMissionOrderId flying4821
      \<and> activeMissionOrderId (tick r0 (tick r0 (tick r0 (tick r0 (returnHome flying4821))))) = None"
    using returnHome_effect[of flying4821 r0 r0 r0 r0] b by blast
  show ?thesis
    using 1 2 by (simp add: flying4821_active os)
qed


text \<open>
  C9, as amended. No command other than \<open>rejectOrder\<close> removes an order: the ids of the
  orders stay, in their order, at the front of the collection. \<open>rejectOrder(orderId)\<close> keeps
  exactly the orders whose id differs from \<open>orderId\<close>, so it removes every order with that
  id whatever its status; when no order has the id it returns the state unchanged, and
  the length of the collection with it.
\<close>

theorem orders_removed_only_by_rejectOrder:
  "((\<forall>i. c \<noteq> RejectOrder i) \<longrightarrow>
       prefix (map order_id (orders s)) (map order_id (orders (exec c s))))
   \<and> orders (rejectOrder orderId s) = filter (\<lambda>x. order_id x \<noteq> orderId) (orders s)
   \<and> (\<forall>x \<in> set (orders s). order_id x = orderId \<longrightarrow> x \<notin> set (orders (rejectOrder orderId s)))
   \<and> (orderId \<notin> order_id ` set (orders s) \<longrightarrow>
        rejectOrder orderId s = s
        \<and> length (orders (rejectOrder orderId s)) = length (orders s))"
proof -
  have "orderId \<notin> order_id ` set (orders s) \<Longrightarrow>
      filter (\<lambda>x. order_id x \<noteq> orderId) (orders s) = orders s"
    by (induction "orders s") (auto simp: filter_id_conv)
  then show ?thesis
    using exec_order_ids[of c s] by (auto simp: rejectOrder_def)
qed

text \<open>
  Starting \<open>ORD-4821\<close> keeps all six ids, rejecting \<open>ORD-4822\<close> leaves the other five, and
  rejecting an id no order has changes nothing.
\<close>

theorem orders_removed_only_by_rejectOrder_witness:
  "prefix (map order_id (orders initialEngine))
          (map order_id (orders (exec (StartMission ''ORD-4821'') approved4821)))
   \<and> map order_id (orders (rejectOrder ''ORD-4822'' initialEngine)) =
        [''ORD-4821'', ''ORD-4823'', ''ORD-4824'', ''ORD-4825'', ''ORD-4826'']
   \<and> rejectOrder ''ORD-9999'' initialEngine = initialEngine
   \<and> length (orders (rejectOrder ''ORD-9999'' initialEngine)) = 6"
proof -
  have a: "\<forall>i. StartMission ''ORD-4821'' \<noteq> RejectOrder i" by simp
  have b: "''ORD-9999'' \<notin> order_id ` set (orders initialEngine)"
    by (simp add: initialEngine_def initialOrders_def mkOrder_def)
  have c: "map order_id (orders approved4821) = map order_id (orders initialEngine)"
    by (simp add: approved4821_def approveOrder_def setStatus_ids)
  have 1: "prefix (map order_id (orders approved4821))
          (map order_id (orders (exec (StartMission ''ORD-4821'') approved4821)))"
    using orders_removed_only_by_rejectOrder[of "StartMission ''ORD-4821''" approved4821] a
    by blast
  have 2: "orders (rejectOrder ''ORD-4822'' initialEngine) =
      filter (\<lambda>x. order_id x \<noteq> ''ORD-4822'') (orders initialEngine)"
    using orders_removed_only_by_rejectOrder[of _ initialEngine "''ORD-4822''"] by blast
  have 3: "rejectOrder ''ORD-9999'' initialEngine = initialEngine
        \<and> length (orders (rejectOrder ''ORD-9999'' initialEngine)) = length (orders initialEngine)"
    using orders_removed_only_by_rejectOrder[of _ initialEngine "''ORD-9999''"] b by blast
  show ?thesis
    using 1 3 unfolding 2 c
    by (simp add: initialEngine_def initialOrders_def mkOrder_def)
qed

text \<open>
  The claim as first stated has rejection remove an order only while it is \<open>Pending\<close>.
  \<open>ORD-4821\<close> is \<open>Approved\<close> and \<open>rejectOrder\<close> removes it.
\<close>

theorem rejectOrder_approved_counterexample:
  "order_status order4821 = Approved
   \<and> order4821 \<in> set (orders approved4821)
   \<and> order4821 \<notin> set (orders (rejectOrder ''ORD-4821'' approved4821))
   \<and> length (orders approved4821) = 6
   \<and> length (orders (rejectOrder ''ORD-4821'' approved4821)) = 5"
  by (simp add: order4821_def approved4821_def approveOrder_def rejectOrder_def setStatus_def
      initialEngine_def initialOrders_def mkOrder_def)


text \<open>
  C10. \<open>rejectOrder\<close> leaves the aircraft, the mission and \<open>activeMissionOrderId\<close> as they
  were. When the rejected id is the one of the active mission, no order with that id is
  left, the mission is still active, so the timer keeps running, and a tick then changes
  no order: the completing tick finds nothing to mark \<open>Delivered\<close>.
\<close>

theorem rejectOrder_frame:
  "aircraft (rejectOrder orderId s) = aircraft s
   \<and> mission (rejectOrder orderId s) = mission s
   \<and> activeMissionOrderId (rejectOrder orderId s) = activeMissionOrderId s
   \<and> (activeMissionOrderId s = Some orderId \<longrightarrow>
        (\<forall>x \<in> set (orders (rejectOrder orderId s)). order_id x \<noteq> orderId)
      \<and> truthy (activeMissionOrderId (rejectOrder orderId s)) = truthy (activeMissionOrderId s)
      \<and> orders (tick r (rejectOrder orderId s)) = orders (rejectOrder orderId s))"
proof -
  have "activeMissionOrderId s = Some orderId \<Longrightarrow>
      setStatus (activeMissionOrderId (rejectOrder orderId s)) Delivered
        (orders (rejectOrder orderId s)) = orders (rejectOrder orderId s)"
    using setStatus_absent[of orderId "orders (rejectOrder orderId s)" Delivered]
    by (auto simp: rejectOrder_def)
  then show ?thesis
    using tick_orders[of r "rejectOrder orderId s"] by (auto simp: rejectOrder_def)
qed

text \<open>
  \<open>ORD-4821\<close> rejected one tick before its mission completes: the completing tick clears
  the active id and the five orders left are all still \<open>Pending\<close>.
\<close>

theorem rejectOrder_frame_witness:
  "aircraft (rejectOrder ''ORD-4821'' landing4821) = aircraft landing4821
   \<and> mission (rejectOrder ''ORD-4821'' landing4821) = mission landing4821
   \<and> activeMissionOrderId (rejectOrder ''ORD-4821'' landing4821) = Some ''ORD-4821''
   \<and> map order_id (orders (rejectOrder ''ORD-4821'' landing4821)) =
        [''ORD-4822'', ''ORD-4823'', ''ORD-4824'', ''ORD-4825'', ''ORD-4826'']
   \<and> orders (tick r0 (rejectOrder ''ORD-4821'' landing4821)) =
        orders (rejectOrder ''ORD-4821'' landing4821)
   \<and> map order_status (orders (tick r0 (rejectOrder ''ORD-4821'' landing4821))) =
        [Pending, Pending, Pending, Pending, Pending]
   \<and> activeMissionOrderId (tick r0 (rejectOrder ''ORD-4821'' landing4821)) = None"
proof -
  note w = rejectOrder_frame[of "''ORD-4821''" landing4821 r0]
  have a: "activeMissionOrderId landing4821 = Some ''ORD-4821''"
    by (simp add: landing4821_fields)
  have o: "orders (rejectOrder ''ORD-4821'' landing4821) =
     [ mkOrder ''ORD-4822'' ''Electronics'' ''1.8 kg'' ''Depot C'' ''Office Park D'',
       mkOrder ''ORD-4823'' ''Food Package'' ''3.1 kg'' ''Kitchen Hub'' ''Residential Zone E'',
       mkOrder ''ORD-4824'' ''Documents'' ''0.5 kg'' ''HQ Tower'' ''Branch Office F'',
       mkOrder ''ORD-4825'' ''Lab Samples'' ''1.2 kg'' ''Lab Center G'' ''Research Facility H'',
       mkOrder ''ORD-4826'' ''Spare Parts'' ''4.0 kg'' ''Factory I'' ''Maintenance Bay J'' ]"
    by (simp add: rejectOrder_def landing4821_fields orders_flying4821 mkOrder_def order4821_def)
  have t: "truthy (activeMissionOrderId (rejectOrder ''ORD-4821'' landing4821))"
    "100 \<le> progress (mission (rejectOrder ''ORD-4821'' landing4821)) + 3 / 2"
    by (simp_all add: rejectOrder_def landing4821_fields truthy_def)
  have n: "activeMissionOrderId (tick r0 (rejectOrder ''ORD-4821'' landing4821)) = None"
    unfolding tick_completing[OF t] by simp
  from w a have e: "orders (tick r0 (rejectOrder ''ORD-4821'' landing4821)) =
        orders (rejectOrder ''ORD-4821'' landing4821)"
    by blast
  show ?thesis
    using w n unfolding e by (simp add: a o mkOrder_def)
qed

end
